theory Spec2Isabelle
  imports Complex_Main "HOL-Library.Char_ord" "HOL-Library.List_Lexorder"
begin

section \<open>COIL codec: shallow embedding of enc.py and dec.py\<close>

text \<open>
  A Python \<open>str\<close> is modelled as a \<open>string\<close>, each \<open>char\<close> standing for one code
  point in the range 0..255. Python's unbounded integers are \<open>int\<close>. A Python dict is
  an association list in insertion order with unique keys (Python dicts iterate in
  insertion order, and the encoder depends on that order). Exceptions are values of
  the type \<open>error\<close>; a function that may raise returns \<open>error + 'a\<close>.
\<close>

subsection \<open>Grammar constants\<close>

definition ESCAPE_CHAR :: char where
  "ESCAPE_CHAR = CHR 0x5C"

definition PAIR_SEP :: char where
  "PAIR_SEP = CHR '',''"

definition RECORD_SEP :: char where
  "RECORD_SEP = CHR ''|''"

subsection \<open>String primitives of the Python library\<close>

text \<open>\<open>s.startswith(p)\<close>.\<close>

definition startswith :: "string \<Rightarrow> string \<Rightarrow> bool" where
  "startswith s p = (take (length p) s = p)"

text \<open>\<open>s.replace(c, r)\<close> for a one-character \<open>c\<close>.\<close>

definition replace_char :: "char \<Rightarrow> string \<Rightarrow> string \<Rightarrow> string" where
  "replace_char c r s = concat (map (\<lambda>x. if x = c then r else [x]) s)"

text \<open>\<open>sep.join(xs)\<close>.\<close>

fun join_str :: "string \<Rightarrow> string list \<Rightarrow> string" where
  "join_str sep [] = []"
| "join_str sep [x] = x"
| "join_str sep (x # y # ys) = x @ sep @ join_str sep (y # ys)"

text \<open>\<open>s.split(c)\<close> for a one-character separator: the result is never empty.\<close>

fun split_on :: "char \<Rightarrow> string \<Rightarrow> string list" where
  "split_on c [] = [[]]"
| "split_on c (x # xs) =
     (if x = c then [] # split_on c xs
      else (case split_on c xs of
              [] \<Rightarrow> [[x]]
            | w # ws \<Rightarrow> (x # w) # ws))"

text \<open>\<open>s.split(c, 1)\<close> when \<open>c\<close> occurs in \<open>s\<close>: the parts before and after the first \<open>c\<close>.\<close>

definition split_first :: "char \<Rightarrow> string \<Rightarrow> string \<times> string" where
  "split_first c s = (takeWhile (\<lambda>x. x \<noteq> c) s, tl (dropWhile (\<lambda>x. x \<noteq> c) s))"

subsection \<open>Cost oracle (enc.py, \_token\_count)\<close>

text \<open>
  The tokenizer of the external library is a parameter: \<open>Some f\<close> when it was loaded
  (\<open>f text\<close> is the number of tokens it returns), \<open>None\<close> when the import failed and
  the fallback applies.
\<close>

definition token_count :: "(string \<Rightarrow> nat) option \<Rightarrow> string \<Rightarrow> int" where
  "token_count enc text =
     (case enc of
        Some f \<Rightarrow> int (f text)
      | None \<Rightarrow> max 1 ((int (length text) + 3) div 4))"

subsection \<open>Escape codec (enc.py, \_escape\_val and \_unescape\_val)\<close>

definition escape_val :: "string \<Rightarrow> string" where
  "escape_val v =
     replace_char PAIR_SEP [ESCAPE_CHAR, PAIR_SEP]
       (replace_char RECORD_SEP [ESCAPE_CHAR, RECORD_SEP]
          (replace_char (CHR '':'') [ESCAPE_CHAR, CHR '':'']
             (replace_char ESCAPE_CHAR [ESCAPE_CHAR, ESCAPE_CHAR] v)))"

text \<open>
  The index loop of \<open>_unescape_val\<close>: at an escape character that is not the last
  character, the next character is copied and both are consumed; otherwise the
  character itself is copied.
\<close>

fun unescape_val :: "string \<Rightarrow> string" where
  "unescape_val [] = []"
| "unescape_val [c] = [c]"
| "unescape_val (c # d # rest) =
     (if c = ESCAPE_CHAR then d # unescape_val rest
      else c # unescape_val (d # rest))"

subsection \<open>Payload values\<close>

text \<open>
  The values a JSON payload holds (floating-point numbers are left out). A dict is its
  list of items in insertion order.
\<close>

datatype jv =
    JNone
  | JBool bool
  | JInt int
  | JStr string
  | JList "jv list"
  | JDict "(string \<times> jv) list"

text \<open>
  The \<open>ValueError\<close>s of the two modules, one constructor for each message, and the
  \<open>AttributeError\<close> of calling \<open>startswith\<close> on a value that is not a string.
\<close>

datatype error =
    UnsupportedSensordata  \<comment> \<open>Unsupported sensordata format; expected list of dicts ...\<close>
  | RecordNotDict          \<comment> \<open>Each record must be a JSON object/dict\<close>
  | MissingDataDict        \<comment> \<open>Input JSON must contain 'data' dict with 'meta' and 'body'.\<close>
  | NotCoilFormat          \<comment> \<open>Not valid COIL META/BODY format\<close>
  | InvalidBodyHeader      \<comment> \<open>Invalid BODY header\<close>
  | AttributeError

text \<open>\<open>d[k] = v\<close>: an existing key keeps its position, a new key goes last.\<close>

definition dict_set :: "('k \<times> 'v) list \<Rightarrow> 'k \<Rightarrow> 'v \<Rightarrow> ('k \<times> 'v) list" where
  "dict_set d k v =
     (if k \<in> set (map fst d)
      then map (\<lambda>kv. if fst kv = k then (k, v) else kv) d
      else d @ [(k, v)])"

text \<open>\<open>d.get(k, default)\<close>.\<close>

definition dict_get :: "('k \<times> 'v) list \<Rightarrow> 'k \<Rightarrow> 'v \<Rightarrow> 'v" where
  "dict_get d k dflt = (case map_of d k of None \<Rightarrow> dflt | Some v \<Rightarrow> v)"

text \<open>\<open>collections.Counter(xs)\<close>: the distinct elements in first-seen order, with their counts.\<close>

definition counter :: "'a list \<Rightarrow> ('a \<times> nat) list" where
  "counter xs =
     foldl (\<lambda>c x. dict_set c x (case map_of c x of None \<Rightarrow> 1 | Some n \<Rightarrow> n + 1)) [] xs"

subsection \<open>Python's str, repr, lower and json.dumps on these values\<close>

fun str_nat :: "nat \<Rightarrow> string" where
  "str_nat n =
     (if n < 10 then [''0123456789'' ! n]
      else str_nat (n div 10) @ [''0123456789'' ! (n mod 10)])"

declare str_nat.simps [simp del]

definition str_int :: "int \<Rightarrow> string" where
  "str_int i = (if i < 0 then CHR ''-'' # str_nat (nat (- i)) else str_nat (nat i))"

definition hex2 :: "char \<Rightarrow> string" where
  "hex2 c = [''0123456789abcdef'' ! ((of_char c :: nat) div 16),
             ''0123456789abcdef'' ! ((of_char c :: nat) mod 16)]"

definition is_printable :: "char \<Rightarrow> bool" where
  "is_printable c =
     (let n = (of_char c :: nat)
      in (0x20 \<le> n \<and> n < 0x7F) \<or> (0xA1 \<le> n \<and> n \<noteq> 0xAD))"

definition repr_char :: "char \<Rightarrow> char \<Rightarrow> string" where
  "repr_char q c =
     (if c = q \<or> c = CHR 0x5C then [CHR 0x5C, c]
      else if c = CHR 0x09 then [CHR 0x5C, CHR ''t'']
      else if c = CHR 0x0A then [CHR 0x5C, CHR ''n'']
      else if c = CHR 0x0D then [CHR 0x5C, CHR ''r'']
      else if is_printable c then [c]
      else [CHR 0x5C, CHR ''x''] @ hex2 c)"

text \<open>\<open>repr(s)\<close>: double quotes only when \<open>s\<close> has a single quote and no double quote.\<close>

definition repr_str :: "string \<Rightarrow> string" where
  "repr_str s =
     (let q = (if CHR 0x27 \<in> set s \<and> CHR 0x22 \<notin> set s then CHR 0x22 else CHR 0x27)
      in [q] @ concat (map (repr_char q) s) @ [q])"

fun py_repr :: "jv \<Rightarrow> string" where
  "py_repr JNone = ''None''"
| "py_repr (JBool b) = (if b then ''True'' else ''False'')"
| "py_repr (JInt i) = str_int i"
| "py_repr (JStr s) = repr_str s"
| "py_repr (JList xs) = ''['' @ join_str '', '' (map py_repr xs) @ '']''"
| "py_repr (JDict kvs) =
     ''{'' @ join_str '', '' (map (\<lambda>kv. repr_str (fst kv) @ '': '' @ py_repr (snd kv)) kvs)
     @ ''}''"

text \<open>\<open>str(v)\<close>: a string is itself, every other value is its \<open>repr\<close>.\<close>

definition py_str :: "jv \<Rightarrow> string" where
  "py_str v = (case v of JStr s \<Rightarrow> s | _ \<Rightarrow> py_repr v)"

definition json_char :: "char \<Rightarrow> string" where
  "json_char c =
     (if c = CHR 0x22 then [CHR 0x5C, CHR 0x22]
      else if c = CHR 0x5C then [CHR 0x5C, CHR 0x5C]
      else if c = CHR 0x0A then [CHR 0x5C, CHR ''n'']
      else if c = CHR 0x0D then [CHR 0x5C, CHR ''r'']
      else if c = CHR 0x09 then [CHR 0x5C, CHR ''t'']
      else if c = CHR 0x08 then [CHR 0x5C, CHR ''b'']
      else if c = CHR 0x0C then [CHR 0x5C, CHR ''f'']
      else if (of_char c :: nat) < 0x20 then [CHR 0x5C, CHR ''u'', CHR ''0'', CHR ''0''] @ hex2 c
      else [c])"

definition json_str :: "string \<Rightarrow> string" where
  "json_str s = [CHR 0x22] @ concat (map json_char s) @ [CHR 0x22]"

text \<open>\<open>json.dumps(v, ensure_ascii=False)\<close>.\<close>

fun json_dumps :: "jv \<Rightarrow> string" where
  "json_dumps JNone = ''null''"
| "json_dumps (JBool b) = (if b then ''true'' else ''false'')"
| "json_dumps (JInt i) = str_int i"
| "json_dumps (JStr s) = json_str s"
| "json_dumps (JList xs) = ''['' @ join_str '', '' (map json_dumps xs) @ '']''"
| "json_dumps (JDict kvs) =
     ''{'' @ join_str '', '' (map (\<lambda>kv. json_str (fst kv) @ '': '' @ json_dumps (snd kv)) kvs)
     @ ''}''"

definition lower_char :: "char \<Rightarrow> char" where
  "lower_char c =
     (let n = (of_char c :: nat)
      in if (0x41 \<le> n \<and> n \<le> 0x5A) \<or> (0xC0 \<le> n \<and> n \<le> 0xDE \<and> n \<noteq> 0xD7)
         then char_of (n + 0x20) else c)"

definition lower :: "string \<Rightarrow> string" where
  "lower s = map lower_char s"

subsection \<open>Whole-word search (enc.py, \_word\_collision)\<close>

text \<open>The characters that the class \<open>\w\<close> of \<open>re\<close> matches.\<close>

definition is_word_char :: "char \<Rightarrow> bool" where
  "is_word_char c =
     (let n = (of_char c :: nat)
      in (0x30 \<le> n \<and> n \<le> 0x39) \<or> (0x41 \<le> n \<and> n \<le> 0x5A) \<or> (0x61 \<le> n \<and> n \<le> 0x7A)
         \<or> n = 0x5F \<or> n = 0xAA \<or> n = 0xB2 \<or> n = 0xB3 \<or> n = 0xB5 \<or> n = 0xB9 \<or> n = 0xBA
         \<or> n = 0xBC \<or> n = 0xBD \<or> n = 0xBE
         \<or> (0xC0 \<le> n \<and> n \<noteq> 0xD7 \<and> n \<noteq> 0xF7))"

text \<open>\<open>\b\<close> at position \<open>p\<close>: exactly one of the two neighbours is a word character.\<close>

definition word_boundary :: "string \<Rightarrow> nat \<Rightarrow> bool" where
  "word_boundary text p =
     ((0 < p \<and> is_word_char (text ! (p - 1))) \<noteq> (p < length text \<and> is_word_char (text ! p)))"

text \<open>\<open>re.search(r'\b' + re.escape(pat) + r'\b', text) is not None\<close>.\<close>

definition word_search :: "string \<Rightarrow> string \<Rightarrow> bool" where
  "word_search pat text =
     list_ex (\<lambda>i. take (length pat) (drop i text) = pat
                  \<and> word_boundary text i \<and> word_boundary text (i + length pat))
       [0..<Suc (length text)]"

text \<open>
  The handler of \<open>re.error\<close> is not a branch of the model: the pattern is an escaped
  literal between two \<open>\b\<close>, which always compiles.
\<close>

definition word_collision :: "string \<Rightarrow> string \<Rightarrow> bool" where
  "word_collision token payload_text =
     (if token = [] then False else word_search (lower token) payload_text)"

subsection \<open>Records and body (enc.py, \_flatten\_records and \_build\_positional\_body)\<close>

fun flatten_records :: "jv \<Rightarrow> error + jv list" where
  "flatten_records (JList xs) = Inr xs"
| "flatten_records (JDict [(k, JList xs)]) = Inr xs"
| "flatten_records _ = Inl UnsupportedSensordata"

text \<open>The loop that rejects a record that is not a dict; the records as item lists.\<close>

fun check_records :: "jv list \<Rightarrow> error + (string \<times> jv) list list" where
  "check_records [] = Inr []"
| "check_records (JDict r # rs) =
     (case check_records rs of Inl e \<Rightarrow> Inl e | Inr rs' \<Rightarrow> Inr (r # rs'))"
| "check_records (_ # rs) = Inl RecordNotDict"

text \<open>\<open>sorted({k for r in records for k in r.keys()})\<close>.\<close>

definition key_order_of :: "(string \<times> jv) list list \<Rightarrow> string list" where
  "key_order_of records = sort (remdups (concat (map (map fst) records)))"

definition body_header :: "(string \<times> jv) list list \<Rightarrow> string list \<Rightarrow> string" where
  "body_header records key_order =
     ''sensordata['' @ str_nat (length records) @ '']{'' @ join_str [PAIR_SEP] key_order @ ''}''"

text \<open>One cell: \<open>r.get(k, '')\<close>, \<open>None\<close> as the empty string, the token if the table has one.\<close>

definition cell_out :: "(string \<times> string) list \<Rightarrow> (string \<times> jv) list \<Rightarrow> string \<Rightarrow> string" where
  "cell_out long_to_token r k =
     (let v = dict_get r k (JStr []);
          v = (if v = JNone then JStr [] else v);
          vs = py_str v
      in case map_of long_to_token vs of
           Some t \<Rightarrow> t
         | None \<Rightarrow> escape_val vs)"

definition build_positional_body ::
  "(string \<times> jv) list list \<Rightarrow> string list \<Rightarrow> (string \<times> string) list \<Rightarrow> string" where
  "build_positional_body records key_order long_to_token =
     join_str [RECORD_SEP]
       (body_header records key_order
        # map (\<lambda>r. join_str [PAIR_SEP] (map (cell_out long_to_token r) key_order)) records)"

text \<open>The legacy body that \<open>encode\<close> builds inline when \<open>compact\<close> is false.\<close>

definition build_legacy_body ::
  "(string \<times> jv) list list \<Rightarrow> string list \<Rightarrow> (string \<times> string) list \<Rightarrow> string" where
  "build_legacy_body records key_order long_to_token =
     join_str [RECORD_SEP]
       (body_header records key_order
        # map (\<lambda>r. join_str [PAIR_SEP]
                     (map (\<lambda>k. k @ '':'' @ cell_out long_to_token r k) key_order)) records)"

subsection \<open>Token proposal (enc.py, \_propose\_value\_tokens)\<close>

fun max_len :: "string list \<Rightarrow> nat" where
  "max_len [] = 0"
| "max_len (s # ss) = max (length s) (max_len ss)"

lemma str_nat_bound: "n < 10 ^ length (str_nat n)"
proof (induction n rule: str_nat.induct)
  case (1 n)
  show ?case
  proof (cases "n < 10")
    case True
    then show ?thesis by (subst str_nat.simps) simp
  next
    case False
    with 1 have "n div 10 < 10 ^ length (str_nat (n div 10))" by simp
    then have "n < 10 * 10 ^ length (str_nat (n div 10))" by linarith
    with False show ?thesis by (subst str_nat.simps) simp
  qed
qed

lemma max_len_ge: "s \<in> set ss \<Longrightarrow> length s \<le> max_len ss"
  by (induction ss) auto

lemma word_search_length: "word_search pat payload_text \<Longrightarrow> length pat \<le> length payload_text"
proof -
  assume "word_search pat payload_text"
  then obtain i where "take (length pat) (drop i payload_text) = pat"
    by (auto simp: word_search_def list_ex_iff)
  then have "length pat = length (take (length pat) (drop i payload_text))" by simp
  then show ?thesis by simp
qed

lemma word_collision_length:
  "word_collision tok payload_text \<Longrightarrow> length tok \<le> length payload_text"
  using word_search_length [of "lower tok"]
  by (auto simp: word_collision_def lower_def split: if_splits)

lemma suffix_taken_bound:
  assumes "word_collision (tok @ str_nat n) payload_text \<or> tok @ str_nat n \<in> set taken"
  shows "n < 10 ^ max (length payload_text) (max_len taken)"
proof -
  have "length (tok @ str_nat n) \<le> max (length payload_text) (max_len taken)"
    using assms word_collision_length max_len_ge by fastforce
  then have "length (str_nat n) \<le> max (length payload_text) (max_len taken)" by simp
  then have "(10::nat) ^ length (str_nat n) \<le> 10 ^ max (length payload_text) (max_len taken)"
    by (simp add: power_increasing)
  with str_nat_bound [of n] show ?thesis by linarith
qed

text \<open>
  The loop \<open>while _word_collision(cand, payload_text) or cand in used: n += 1; cand = f"{tok}{n}"\<close>,
  entered with \<open>n\<close>; \<open>taken\<close> holds the tokens already used. It ends because a
  candidate that collides or is taken is no longer than the payload text or the longest
  taken token, and the candidates grow.
\<close>

function suffix_search :: "string \<Rightarrow> string list \<Rightarrow> string \<Rightarrow> nat \<Rightarrow> string" where
  "suffix_search tok taken payload_text n =
     (if word_collision (tok @ str_nat n) payload_text \<or> tok @ str_nat n \<in> set taken
      then suffix_search tok taken payload_text (n + 1)
      else tok @ str_nat n)"
  by pat_completeness auto
termination
  apply (relation "measure (\<lambda>(tok, taken, payload_text, n).
                     10 ^ max (length payload_text) (max_len taken) - n)")
   apply simp
  apply (frule suffix_taken_bound)
  apply simp
  done

declare suffix_search.simps [simp del]

text \<open>\<open>cnt[v]\<close> on a Counter: 0 for a missing element.\<close>

definition count_of :: "('a \<times> nat) list \<Rightarrow> 'a \<Rightarrow> nat" where
  "count_of cnt v = (case map_of cnt v of None \<Rightarrow> 0 | Some n \<Rightarrow> n)"

text \<open>
  The token of one candidate: \<open>V\<close> and the counter, or, when that collides with the
  payload text or is used already, the first free one with a numeric suffix.
\<close>

definition propose_token :: "string \<Rightarrow> string list \<Rightarrow> string \<Rightarrow> string" where
  "propose_token tok used payload_text =
     (if word_collision tok payload_text \<or> tok \<in> set used
      then suffix_search tok used payload_text 1 else tok)"

text \<open>
  One round of the loop over the candidates. The state is \<open>proposals\<close>, the counter
  \<open>i\<close> and the set \<open>used\<close>; \<open>add_proposal\<close> is the end of the loop body, with the
  token chosen.
\<close>

fun add_proposal ::
  "(string \<times> string) list \<times> nat \<times> string list \<Rightarrow> string \<Rightarrow> string
   \<Rightarrow> (string \<times> string) list \<times> nat \<times> string list" where
  "add_proposal (proposals, i, used) v tok = (dict_set proposals v tok, i + 1, tok # used)"

fun propose_step ::
  "string \<Rightarrow> (string \<times> string) list \<times> nat \<times> string list \<Rightarrow> string
   \<Rightarrow> (string \<times> string) list \<times> nat \<times> string list" where
  "propose_step payload_text (proposals, i, used) v =
     add_proposal (proposals, i, used) v (propose_token (''V'' @ str_nat i) used payload_text)"

definition all_values_of :: "(string \<times> jv) list list \<Rightarrow> string list" where
  "all_values_of records =
     concat (map (\<lambda>r. map py_str (filter (\<lambda>v. v \<noteq> JNone) (map snd r))) records)"

text \<open>
  The candidates in the order the optimizer tries them: the values with at least
  \<open>min_freq\<close> occurrences, sorted by count times length, largest first; Python's
  sort is stable, also with \<open>reverse=True\<close>.
\<close>

definition candidates_of :: "(string \<times> nat) list \<Rightarrow> int \<Rightarrow> string list" where
  "candidates_of cnt min_freq =
     sort_key (\<lambda>v. - (int (count_of cnt v) * int (length v)))
       (map fst (filter (\<lambda>vf. min_freq \<le> int (snd vf)) cnt))"

definition propose_from ::
  "string \<Rightarrow> int \<Rightarrow> (string \<times> nat) list \<Rightarrow> (string \<times> string) list \<times> (string \<times> nat) list" where
  "propose_from payload_text min_freq cnt =
     (fst (foldl (propose_step payload_text) ([], 1, []) (candidates_of cnt min_freq)), cnt)"

definition propose_value_tokens ::
  "(string \<times> jv) list list \<Rightarrow> string \<Rightarrow> int \<Rightarrow> (string \<times> string) list \<times> (string \<times> nat) list" where
  "propose_value_tokens records payload_text min_freq =
     propose_from payload_text min_freq (counter (all_values_of records))"

subsection \<open>The encoder (enc.py, encode)\<close>

definition extract_records :: "jv \<Rightarrow> error + jv list" where
  "extract_records data =
     (case data of
        JDict d \<Rightarrow>
          (case map_of d ''sensordata'' of
             Some s \<Rightarrow> flatten_records s
           | None \<Rightarrow> flatten_records data)
      | _ \<Rightarrow> flatten_records data)"

text \<open>The declaration after the marker: \<open>ORDER=...\<close> (compact) or \<open>map=...\<close> (legacy).\<close>

definition order_decl :: "bool \<Rightarrow> string list \<Rightarrow> string" where
  "order_decl compact_mode key_order =
     (if compact_mode then ''ORDER='' @ join_str '','' key_order
      else ''map='' @ join_str '';'' (map (\<lambda>k. k @ '':'' @ k) key_order))"

definition build_body ::
  "bool \<Rightarrow> (string \<times> jv) list list \<Rightarrow> string list \<Rightarrow> (string \<times> string) list \<Rightarrow> string" where
  "build_body compact_mode records key_order long_to_token =
     (if compact_mode then build_positional_body records key_order long_to_token
      else build_legacy_body records key_order long_to_token)"

text \<open>
  The text whose cost the optimizer measures for a table:
  \<open>hypot_meta + '|' + hypot_body\<close>, the vmap entries written \<open>token:value\<close>.
\<close>

definition hypot_text ::
  "bool \<Rightarrow> (string \<times> jv) list list \<Rightarrow> string list \<Rightarrow> (string \<times> string) list \<Rightarrow> string" where
  "hypot_text compact_mode records key_order hypot_long_to_token =
     (let hypot_body = build_body compact_mode records key_order hypot_long_to_token;
          meta_parts = [order_decl compact_mode key_order];
          vm_entries = map (\<lambda>vt. snd vt @ '':'' @ fst vt) hypot_long_to_token;
          meta_parts = (if vm_entries \<noteq> []
                        then meta_parts @ [''vmap='' @ join_str '';'' vm_entries]
                        else meta_parts);
          hypot_meta = ''META&'' @ join_str ''&'' meta_parts
      in hypot_meta @ ''|'' @ hypot_body)"

text \<open>
  The token of one proposal in the loop \<open>for val in proposed_vals\<close>: the proposed
  one, or the first free one with a numeric suffix.
\<close>

definition accept_token :: "string \<Rightarrow> (string \<times> string) list \<Rightarrow> string \<Rightarrow> string" where
  "accept_token tok accepted_vmap payload_text =
     (if tok \<in> set (map fst accepted_vmap) \<or> word_collision tok payload_text
      then suffix_search tok (map fst accepted_vmap) payload_text 1 else tok)"

text \<open>
  One round of that loop. The state is \<open>accepted\<close> (value to token),
  \<open>accepted_vmap\<close> (token to value) and \<open>current_tokens\<close>. \<open>opt_decide\<close> is the
  end of the loop body, with the token chosen and the hypothetical cost measured.
\<close>

fun opt_decide ::
  "(string \<times> string) list \<times> (string \<times> string) list \<times> int \<Rightarrow> string \<Rightarrow> string \<Rightarrow> int
   \<Rightarrow> (string \<times> string) list \<times> (string \<times> string) list \<times> int" where
  "opt_decide (accepted, accepted_vmap, current_tokens) val tok hypot_total_tokens =
     (let gain = current_tokens - hypot_total_tokens
      in if 0 < gain
         then (dict_set accepted val tok, dict_set accepted_vmap tok val, hypot_total_tokens)
         else (accepted, accepted_vmap, current_tokens))"

fun opt_try ::
  "(string \<Rightarrow> nat) option \<Rightarrow> bool \<Rightarrow> (string \<times> jv) list list \<Rightarrow> string list
   \<Rightarrow> (string \<times> string) list \<times> (string \<times> string) list \<times> int \<Rightarrow> string \<Rightarrow> string
   \<Rightarrow> (string \<times> string) list \<times> (string \<times> string) list \<times> int" where
  "opt_try enc compact_mode records key_order (accepted, accepted_vmap, current_tokens) val tok =
     opt_decide (accepted, accepted_vmap, current_tokens) val tok
       (token_count enc (hypot_text compact_mode records key_order (dict_set accepted val tok)))"

fun opt_step ::
  "(string \<Rightarrow> nat) option \<Rightarrow> bool \<Rightarrow> (string \<times> jv) list list \<Rightarrow> string list \<Rightarrow> string
   \<Rightarrow> (string \<times> string) list \<times> (string \<times> string) list \<times> int
   \<Rightarrow> string \<times> string
   \<Rightarrow> (string \<times> string) list \<times> (string \<times> string) list \<times> int" where
  "opt_step enc compact_mode records key_order payload_text
       (accepted, accepted_vmap, current_tokens) (val, tok0) =
     opt_try enc compact_mode records key_order (accepted, accepted_vmap, current_tokens) val
       (accept_token tok0 accepted_vmap payload_text)"

text \<open>The passthrough declarations \<open>q=...\<close> and \<open>mdu=...\<close> of the final meta.\<close>

definition extras_of :: "(string \<times> jv) list \<Rightarrow> string list" where
  "extras_of payload =
     concat (map (\<lambda>pick. case map_of payload pick of
                            Some v \<Rightarrow> [pick @ ''='' @ py_str v]
                          | None \<Rightarrow> [])
               [''q'', ''mdu''])"

text \<open>
  The substitution table the encoder ends with, as \<open>accepted\<close>, \<open>accepted_vmap\<close> and
  the last measured cost: the empty table with the baseline cost when nothing is
  proposed, the result of the loop otherwise.
\<close>

definition optimize_from ::
  "(string \<Rightarrow> nat) option \<Rightarrow> bool \<Rightarrow> (string \<times> jv) list list \<Rightarrow> string list \<Rightarrow> string \<Rightarrow> int
   \<Rightarrow> (string \<times> string) list
   \<Rightarrow> (string \<times> string) list \<times> (string \<times> string) list \<times> int" where
  "optimize_from enc compact_mode records key_order payload_text base_total_tokens proposed_vals =
     (if proposed_vals = [] then ([], [], base_total_tokens)
      else foldl (opt_step enc compact_mode records key_order payload_text)
             ([], [], base_total_tokens) proposed_vals)"

definition base_text :: "bool \<Rightarrow> (string \<times> jv) list list \<Rightarrow> string list \<Rightarrow> string" where
  "base_text compact_mode records key_order =
     (let base_body = build_body compact_mode records key_order [];
          base_meta = ''META&'' @ order_decl compact_mode key_order
      in base_meta @ ''|'' @ base_body)"

definition optimize ::
  "(string \<Rightarrow> nat) option \<Rightarrow> bool \<Rightarrow> (string \<times> jv) list list \<Rightarrow> string list \<Rightarrow> string \<Rightarrow> int
   \<Rightarrow> (string \<times> string) list \<times> (string \<times> string) list \<times> int" where
  "optimize enc compact_mode records key_order payload_text value_min_freq =
     optimize_from enc compact_mode records key_order payload_text
       (token_count enc (base_text compact_mode records key_order))
       (fst (propose_value_tokens records payload_text value_min_freq))"

text \<open>
  The end of \<open>encode\<close>: the final body and meta for the table, the vmap declaration
  when the table is not empty, the passthrough declarations, and the new \<open>data\<close>.
  With the empty table the body and the meta are the baseline ones.
\<close>

fun assemble ::
  "(string \<times> jv) list \<Rightarrow> bool \<Rightarrow> (string \<times> jv) list list \<Rightarrow> string list
   \<Rightarrow> (string \<times> string) list \<times> (string \<times> string) list \<times> int \<Rightarrow> (string \<times> jv) list" where
  "assemble payload compact_mode records key_order (accepted, final_vmap, current_tokens) =
       (let final_body = build_body compact_mode records key_order accepted;
            final_meta = ''META&'' @ order_decl compact_mode key_order;
            meta_parts = [drop (length ''META&'') final_meta];
            meta_parts = (if final_vmap \<noteq> []
                          then meta_parts
                               @ [''vmap='' @ join_str '';''
                                               (map (\<lambda>kv. fst kv @ '':'' @ snd kv) final_vmap)]
                          else meta_parts);
            meta_parts = meta_parts @ extras_of payload;
            meta_str = ''META&'' @ join_str ''&'' meta_parts
        in dict_set payload ''data''
             (JDict [(''meta'', JStr meta_str), (''body'', JStr (''BODY|'' @ final_body))]))"

text \<open>
  The body of \<open>encode\<close> once the records have been taken out of the payload:
  \<open>encode_with\<close> has the key order and the lower-cased JSON text of the payload.
\<close>

definition encode_with ::
  "(string \<Rightarrow> nat) option \<Rightarrow> (string \<times> jv) list \<Rightarrow> (string \<times> jv) list list \<Rightarrow> int \<Rightarrow> bool
   \<Rightarrow> string list \<Rightarrow> string \<Rightarrow> (string \<times> jv) list" where
  "encode_with enc payload records value_min_freq compact_mode key_order payload_text =
     assemble payload compact_mode records key_order
       (optimize enc compact_mode records key_order payload_text value_min_freq)"

definition encode_records ::
  "(string \<Rightarrow> nat) option \<Rightarrow> (string \<times> jv) list \<Rightarrow> (string \<times> jv) list list \<Rightarrow> int \<Rightarrow> bool
   \<Rightarrow> (string \<times> jv) list" where
  "encode_records enc payload records value_min_freq compact_mode =
     encode_with enc payload records value_min_freq compact_mode
       (key_order_of records) (lower (json_dumps (JDict payload)))"

text \<open>
  \<open>encode(payload, value_min_freq, compact)\<close>; \<open>enc\<close> is the tokenizer of the cost
  oracle. A payload without the key \<open>data\<close> is returned as it is.
\<close>

definition encode ::
  "(string \<Rightarrow> nat) option \<Rightarrow> (string \<times> jv) list \<Rightarrow> int \<Rightarrow> bool \<Rightarrow> error + (string \<times> jv) list" where
  "encode enc payload value_min_freq compact_mode =
     (case map_of payload ''data'' of
        None \<Rightarrow> Inr payload
      | Some data \<Rightarrow>
          (case extract_records data of
             Inl e \<Rightarrow> Inl e
           | Inr items \<Rightarrow>
               (case check_records items of
                  Inl e \<Rightarrow> Inl e
                | Inr records \<Rightarrow> Inr (encode_records enc payload records value_min_freq compact_mode))))"

subsection \<open>The decoder (dec.py, decode)\<close>

definition is_digit :: "char \<Rightarrow> bool" where
  "is_digit c = (CHR ''0'' \<le> c \<and> c \<le> CHR ''9'')"

text \<open>The characters \<open>str.strip()\<close> removes.\<close>

definition is_space :: "char \<Rightarrow> bool" where
  "is_space c =
     (let n = (of_char c :: nat)
      in (0x09 \<le> n \<and> n \<le> 0x0D) \<or> (0x1C \<le> n \<and> n \<le> 0x20) \<or> n = 0x85 \<or> n = 0xA0)"

text \<open>
  \<open>re.match(r'sensordata\[(\d+)\]\{(.+)\}', header)\<close>: \<open>None\<close> when there is no
  match, the two groups otherwise. The match starts at the beginning of the header and
  need not reach its end; \<open>.+\<close> is greedy and does not cross a newline, so the second
  group ends before the last closing brace of the first line that leaves it non-empty.
\<close>

definition match_header :: "string \<Rightarrow> (string \<times> string) option" where
  "match_header header =
     (if \<not> startswith header ''sensordata['' then None
      else let r1 = drop (length ''sensordata['') header;
               ds = takeWhile is_digit r1;
               r2 = drop (length ds) r1
           in if ds = [] \<or> \<not> startswith r2 '']{'' then None
              else let line = takeWhile (\<lambda>c. c \<noteq> CHR 0x0A) (drop 2 r2);
                       js = filter (\<lambda>j. line ! j = CHR ''}'') [1..<length line]
                   in if js = [] then None else Some (ds, take (last js) line))"

text \<open>A value taken out of a row: expanded through the vmap, or unescaped.\<close>

definition resolve_val :: "(string \<times> string) list \<Rightarrow> string \<Rightarrow> string" where
  "resolve_val vmap vraw = (case map_of vmap vraw of Some val \<Rightarrow> val | None \<Rightarrow> unescape_val vraw)"

text \<open>The entries \<open>a:b\<close> of a \<open>;\<close>-separated declaration, as a dict.\<close>

definition parse_pairs :: "string \<Rightarrow> (string \<times> string) list" where
  "parse_pairs decl =
     foldl (\<lambda>d e. if CHR '':'' \<in> set e
                   then (case split_first (CHR '':'') e of (a, b) \<Rightarrow> dict_set d a b)
                   else d)
       [] (split_on (CHR '';'') decl)"

definition parse_meta :: "string \<Rightarrow> (string \<times> string) list" where
  "parse_meta meta =
     (let meta_body = drop (length ''META&'') meta;
          meta_parts = (if meta_body \<noteq> [] then split_on (CHR ''&'') meta_body else [])
      in foldl (\<lambda>kv p. if CHR ''='' \<in> set p
                        then (case split_first (CHR ''='') p of (k, v) \<Rightarrow> dict_set kv k v)
                        else kv)
           [] meta_parts)"

definition decode_legacy_row ::
  "(string \<times> string) list \<Rightarrow> (string \<times> string) list \<Rightarrow> string \<Rightarrow> (string \<times> string) list" where
  "decode_legacy_row meta_kv vmap row =
     (let kvs = split_on PAIR_SEP row;
          rec = foldl (\<lambda>rec kv. if CHR '':'' \<notin> set kv then rec
                                 else (case split_first (CHR '':'') kv of
                                         (sk, vv) \<Rightarrow> dict_set rec sk (resolve_val vmap vv)))
                  [] kvs
      in case map_of meta_kv ''map'' of
           Some m \<Rightarrow>
             (let short_to_long = parse_pairs m
              in foldl (\<lambda>rec2 skv. dict_set rec2
                                     (case map_of short_to_long (fst skv) of
                                        Some l \<Rightarrow> l | None \<Rightarrow> fst skv)
                                     (snd skv))
                   [] rec)
         | None \<Rightarrow> rec)"

definition decode_compact_row ::
  "(string \<times> string) list \<Rightarrow> string list \<Rightarrow> string \<Rightarrow> (string \<times> string) list" where
  "decode_compact_row vmap key_list row =
     (let parts_vals = split_on PAIR_SEP row
      in foldl (\<lambda>rec ik. let vraw = (if fst ik < length parts_vals then parts_vals ! fst ik else [])
                          in dict_set rec (snd ik) (resolve_val vmap vraw))
           [] (enumerate 0 key_list))"

definition decode_rows ::
  "(string \<times> string) list \<Rightarrow> (string \<times> string) list \<Rightarrow> string list \<Rightarrow> string list
   \<Rightarrow> (string \<times> string) list list" where
  "decode_rows meta_kv vmap key_list data_rows =
     map (\<lambda>row. if CHR '':'' \<in> set row then decode_legacy_row meta_kv vmap row
                 else decode_compact_row vmap key_list row)
       (filter (\<lambda>row. \<not> list_all is_space row) data_rows)"

text \<open>The records as the value stored under \<open>sensordata\<close>.\<close>

definition records_value :: "(string \<times> string) list list \<Rightarrow> jv" where
  "records_value records = JList (map (\<lambda>r. JDict (map (\<lambda>kv. (fst kv, JStr (snd kv))) r)) records)"

definition parse_vmap :: "(string \<times> string) list \<Rightarrow> (string \<times> string) list" where
  "parse_vmap meta_kv =
     (case map_of meta_kv ''vmap'' of
        Some vm \<Rightarrow> if vm \<noteq> [] then parse_pairs vm else []
      | None \<Rightarrow> [])"

text \<open>
  The part of \<open>decode\<close> after the two markers have been checked: the meta
  declarations, the header and the rows.
\<close>

definition decode_body :: "(string \<times> jv) list \<Rightarrow> string \<Rightarrow> string \<Rightarrow> error + (string \<times> jv) list" where
  "decode_body obj meta body =
     (let meta_kv = parse_meta meta;
          vmap = parse_vmap meta_kv;
          body_payload = drop (length ''BODY|'') body
      in case split_on RECORD_SEP body_payload of
           [] \<Rightarrow> Inr obj
         | header # data_rows \<Rightarrow>
             (case match_header header of
                None \<Rightarrow> Inl InvalidBodyHeader
              | Some m \<Rightarrow>
                  (let key_list = split_on (CHR '','') (snd m);
                       records = decode_rows meta_kv vmap key_list data_rows
                   in Inr (dict_set obj ''data''
                             (JDict [(''sensordata'', records_value records)])))))"

text \<open>
  \<open>decode(obj)\<close>. \<open>startswith\<close> is called on \<open>meta\<close> first and on \<open>body\<close> only when
  \<open>meta\<close> has its marker; a value that is not a string has no such method.
\<close>

definition decode :: "(string \<times> jv) list \<Rightarrow> error + (string \<times> jv) list" where
  "decode obj =
     (case map_of obj ''data'' of
        Some (JDict d) \<Rightarrow>
          (let meta = dict_get d ''meta'' (JStr []);
               body = dict_get d ''body'' (JStr [])
           in case meta of
                JStr meta \<Rightarrow>
                  if \<not> startswith meta ''META&'' then Inl NotCoilFormat
                  else (case body of
                          JStr body \<Rightarrow>
                            if \<not> startswith body ''BODY|'' then Inl NotCoilFormat
                            else decode_body obj meta body
                        | _ \<Rightarrow> Inl AttributeError)
              | _ \<Rightarrow> Inl AttributeError)
      | _ \<Rightarrow> Inl MissingDataDict)"

subsection \<open>Encoding followed by decoding\<close>

text \<open>
  \<open>decode(encode(payload))\<close> with the defaults of \<open>encode\<close> (\<open>value_min_freq=2\<close>,
  \<open>compact=True\<close>) and the fallback cost.
\<close>

definition roundtrip :: "(string \<times> jv) list \<Rightarrow> error + (string \<times> jv) list" where
  "roundtrip payload =
     (case encode None payload 2 True of Inl e \<Rightarrow> Inl e | Inr obj \<Rightarrow> decode obj)"

subsection \<open>The scenario of the spec\<close>

text \<open>
  The dataset of three readings, the payload that holds it under \<open>sensordata\<close>, and
  the lower-cased JSON text of that payload, which \<open>encode\<close> checks tokens against.
\<close>

definition scenario_records :: "(string \<times> jv) list list" where
  "scenario_records =
     [[(''temp'', JStr ''21.5''), (''unit'', JStr ''C'')],
      [(''temp'', JStr ''21.5''), (''unit'', JStr ''C'')],
      [(''temp'', JStr ''19.0''), (''unit'', JStr ''C'')]]"

definition scenario_payload :: "(string \<times> jv) list" where
  "scenario_payload = [(''data'', JDict [(''sensordata'', JList (map JDict scenario_records))])]"

definition scenario_text :: string where
  "scenario_text = lower (json_dumps (JDict scenario_payload))"

subsection \<open>Predicates of the properties\<close>



section \<open>Properties\<close>

subsection \<open>Escape codec\<close>

definition esc1 :: "char \<Rightarrow> string" where
  "esc1 c = (if c = ESCAPE_CHAR \<or> c = CHR '':'' \<or> c = RECORD_SEP \<or> c = PAIR_SEP
             then [ESCAPE_CHAR, c] else [c])"

lemma escape_val_concat: "escape_val s = concat (map esc1 s)"
  by (induction s)
     (auto simp: escape_val_def replace_char_def esc1_def ESCAPE_CHAR_def PAIR_SEP_def
        RECORD_SEP_def)

lemma unescape_esc1: "unescape_val (esc1 c @ rest) = c # unescape_val rest"
  by (cases rest) (auto simp: esc1_def ESCAPE_CHAR_def PAIR_SEP_def RECORD_SEP_def)

text \<open>
  C2. For every string \<open>s\<close>, also one that contains the escape character,
  unescaping the escaped string gives \<open>s\<close> back. The escaping is the source's chain
  of four replacements, the escape character first.
\<close>

theorem unescape_escape: "unescape_val (escape_val s) = s"
  unfolding escape_val_concat
  by (induction s) (simp_all add: unescape_esc1)

subsection \<open>Cost oracle\<close>

text \<open>
  C9. The fallback cost of every text is an integer that is at least 1, and it is the
  maximum of 1 and the ceiling of a quarter of the length of the text.
\<close>

theorem token_count_fallback:
  "1 \<le> token_count None text \<and>
   token_count None text = max 1 \<lceil>real (length text) / 4\<rceil>"
proof -
  define q where "q = (int (length text) + 3) div 4"
  have a: "4 * q \<le> int (length text) + 3" and b: "int (length text) + 3 < 4 * q + 4"
    unfolding q_def by linarith+
  have "real_of_int (4 * q - 4) < real_of_int (int (length text))"
    using a by linarith
  then have lo: "real_of_int q - 1 < real (length text) / 4"
    by simp
  have "real_of_int (int (length text)) \<le> real_of_int (4 * q)"
    using b by linarith
  then have hi: "real (length text) / 4 \<le> real_of_int q"
    by simp
  from lo hi have "\<lceil>real (length text) / 4\<rceil> = q"
    by (rule ceiling_unique)
  then show ?thesis
    by (simp add: token_count_def q_def)
qed

subsection \<open>Dictionaries and splitting\<close>

lemma map_of_dict_set_same: "map_of (dict_set d k v) k = Some v"
proof (cases "k \<in> set (map fst d)")
  case True
  then have "map_of (map (\<lambda>kv. if fst kv = k then (k, v) else kv) d) k = Some v"
    by (induction d) auto
  with True show ?thesis by (simp add: dict_set_def)
next
  case False
  then have "map_of d k = None" by (simp add: map_of_eq_None_iff)
  with False show ?thesis by (simp add: dict_set_def map_add_def)
qed

lemma split_on_nonempty: "split_on c s \<noteq> []"
  by (induction s) (auto split: list.splits)

subsection \<open>Key order\<close>

lemma key_order_sorted: "sorted (key_order_of rs)"
  by (simp add: key_order_of_def)

lemma key_order_distinct: "distinct (key_order_of rs)"
  by (simp add: key_order_of_def)

lemma key_order_set: "set (key_order_of rs) = (\<Union>r \<in> set rs. fst ` set r)"
  by (simp add: key_order_of_def)

text \<open>
  C7. The key order that \<open>encode\<close> computes is sorted in the lexicographic order of
  the field names, has no duplicates, and its elements are exactly the field names of the
  records; so two datasets with the same set of field names have the same key order,
  whatever the order of their records and of the keys in each record.
\<close>

theorem key_order_sorted_union:
  "sorted (key_order_of records) \<and> distinct (key_order_of records) \<and>
   set (key_order_of records) = (\<Union>r \<in> set records. fst ` set r) \<and>
   ((\<Union>r \<in> set records. fst ` set r) = (\<Union>r \<in> set records'. fst ` set r)
      \<longrightarrow> key_order_of records = key_order_of records')"
proof (intro conjI impI)
  assume "(\<Union>r \<in> set records. fst ` set r) = (\<Union>r \<in> set records'. fst ` set r)"
  then have "set (key_order_of records) = set (key_order_of records')"
    by (simp only: key_order_set)
  then show "key_order_of records = key_order_of records'"
    by (intro sorted_distinct_set_unique key_order_sorted key_order_distinct)
qed (rule key_order_sorted key_order_distinct key_order_set)+

theorem key_order_sorted_union_witness:
  "key_order_of [[(''temp'', JStr ''1''), (''unit'', JStr ''C'')], [(''id'', JInt 7)]]
     = key_order_of [[(''id'', JInt 8), (''unit'', JStr ''F'')], [(''unit'', JNone), (''temp'', JStr ''2'')]]
   \<and> key_order_of [[(''temp'', JStr ''1''), (''unit'', JStr ''C'')], [(''id'', JInt 7)]]
     = [''id'', ''temp'', ''unit'']"
proof -
  let ?A = "[[(''temp'', JStr ''1''), (''unit'', JStr ''C'')], [(''id'', JInt 7)]]"
  let ?B = "[[(''id'', JInt 8), (''unit'', JStr ''F'')], [(''unit'', JNone), (''temp'', JStr ''2'')]]"
  have u: "(\<Union>r \<in> set ?A. fst ` set r) = (\<Union>r \<in> set ?B. fst ` set r)"
    by code_simp
  have k: "key_order_of ?A = [''id'', ''temp'', ''unit'']"
    by code_simp
  have "(\<Union>r \<in> set ?A. fst ` set r) = (\<Union>r \<in> set ?B. fst ` set r)
          \<longrightarrow> key_order_of ?A = key_order_of ?B"
    by (rule conjunct2 [OF conjunct2 [OF conjunct2 [OF key_order_sorted_union]]])
  then have "key_order_of ?A = key_order_of ?B"
    using u by (rule mp)
  then show ?thesis
    using k by (rule conjI)
qed

subsection \<open>A payload without data\<close>

text \<open>
  On a payload without the key \<open>data\<close> the encoder raises nothing: it returns the
  payload.
\<close>

theorem encode_no_data_counterexample:
  "encode None [(''q'', JStr ''x'')] 2 True = Inr [(''q'', JStr ''x'')]"
  by (simp add: encode_def)

text \<open>
  C3, as the code has it. For every payload without the key \<open>data\<close>, \<open>encode\<close>
  returns the payload unchanged and \<open>decode\<close> raises the error of a missing
  \<open>data\<close> dict.
\<close>

theorem no_data_key:
  "map_of payload ''data'' = None \<Longrightarrow>
     encode enc payload value_min_freq compact_mode = Inr payload \<and>
     decode payload = Inl MissingDataDict"
  by (simp add: encode_def decode_def)

theorem no_data_key_witness:
  "map_of [(''q'', JStr ''x'')] ''data'' = None \<and>
   encode None [(''q'', JStr ''x'')] 2 True = Inr [(''q'', JStr ''x'')] \<and>
   decode [(''q'', JStr ''x'')] = Inl MissingDataDict"
  using no_data_key [of "[(''q'', JStr ''x'')]" None 2 True] by simp

subsection \<open>The empty dataset\<close>

lemma str_nat_0: "str_nat 0 = ''0''"
  by (subst str_nat.simps) simp

lemma empty_header_rejected:
  "decode_body obj meta ''BODY|sensordata[0]{}'' = Inl InvalidBodyHeader"
proof -
  have "split_on RECORD_SEP (drop (length ''BODY|'') ''BODY|sensordata[0]{}'') = [''sensordata[0]{}'']"
    by code_simp
  moreover have "match_header ''sensordata[0]{}'' = None"
    by code_simp
  ultimately show ?thesis
    unfolding decode_body_def Let_def by (simp only: list.case option.case)
qed

lemma propose_nothing: "fst (propose_value_tokens [] payload_text min_freq) = []"
  by (simp add: propose_value_tokens_def propose_from_def all_values_of_def counter_def
      candidates_of_def)

lemma build_body_empty: "build_body compact_mode [] [] table = ''sensordata[0]{}''"
  by (simp add: build_body_def build_positional_body_def build_legacy_body_def
      body_header_def str_nat_0)

lemma encode_records_empty:
  "encode_records enc payload [] value_min_freq compact_mode =
     dict_set payload ''data''
       (JDict [(''meta'', JStr (''META&'' @ join_str ''&'' (order_decl compact_mode [] # extras_of payload))),
               (''body'', JStr ''BODY|sensordata[0]{}'')])"
  by (simp add: encode_records_def encode_with_def optimize_def optimize_from_def
      Let_def propose_nothing build_body_empty key_order_of_def)

text \<open>
  C10. For every payload whose record list is empty, \<open>encode\<close> (in either mode, with
  any cost oracle) returns a payload whose body is the marker followed by the header
  \<open>sensordata[0]{}\<close> alone, and \<open>decode\<close> of that payload raises the error of an
  invalid body header.
\<close>

theorem empty_dataset_rejected:
  assumes "map_of payload ''data'' = Some data" and "extract_records data = Inr []"
  shows "\<exists>meta. encode enc payload value_min_freq compact_mode
            = Inr (dict_set payload ''data''
                     (JDict [(''meta'', JStr meta), (''body'', JStr ''BODY|sensordata[0]{}'')]))
          \<and> decode (dict_set payload ''data''
                     (JDict [(''meta'', JStr meta), (''body'', JStr ''BODY|sensordata[0]{}'')]))
            = Inl InvalidBodyHeader"
proof -
  let ?meta = "''META&'' @ join_str ''&'' (order_decl compact_mode [] # extras_of payload)"
  let ?out = "dict_set payload ''data''
                (JDict [(''meta'', JStr ?meta), (''body'', JStr ''BODY|sensordata[0]{}'')])"
  have e: "encode enc payload value_min_freq compact_mode = Inr ?out"
    using assms by (simp add: encode_def encode_records_empty)
  have d: "decode ?out = Inl InvalidBodyHeader"
    by (simp add: decode_def map_of_dict_set_same dict_get_def startswith_def
        empty_header_rejected del: split_on.simps)
  from e d show ?thesis by blast
qed

theorem empty_dataset_rejected_witness:
  "decode (dict_set [(''data'', JDict [(''sensordata'', JList [])])] ''data''
             (JDict [(''meta'', JStr ''META&ORDER=''), (''body'', JStr ''BODY|sensordata[0]{}'')]))
     = Inl InvalidBodyHeader \<and>
   encode None [(''data'', JDict [(''sensordata'', JList [])])] 2 True
     = Inr (dict_set [(''data'', JDict [(''sensordata'', JList [])])] ''data''
             (JDict [(''meta'', JStr ''META&ORDER=''), (''body'', JStr ''BODY|sensordata[0]{}'')]))"
proof -
  have a: "map_of [(''data'', JDict [(''sensordata'', JList [])])] ''data''
             = Some (JDict [(''sensordata'', JList [])])"
    by simp
  have b: "extract_records (JDict [(''sensordata'', JList [])]) = Inr []"
    by (simp add: extract_records_def)
  have e: "encode None [(''data'', JDict [(''sensordata'', JList [])])] 2 True
     = Inr (dict_set [(''data'', JDict [(''sensordata'', JList [])])] ''data''
             (JDict [(''meta'', JStr ''META&ORDER=''), (''body'', JStr ''BODY|sensordata[0]{}'')]))"
    by code_simp
  from empty_dataset_rejected [OF a b, of None 2 True] e show ?thesis
    by auto
qed

subsection \<open>Failures of the decoder\<close>

lemma decode_body_fails_iff:
  "(\<exists>e. decode_body obj meta body = Inl e)
     \<longleftrightarrow> match_header (hd (split_on RECORD_SEP (drop (length ''BODY|'') body))) = None"
proof (cases "split_on RECORD_SEP (drop (length ''BODY|'') body)")
  case Nil
  then show ?thesis using split_on_nonempty by blast
next
  case (Cons header data_rows)
  show ?thesis
    unfolding decode_body_def Let_def Cons
    by (cases "match_header header") simp_all
qed

text \<open>
  C8. When \<open>data\<close> is a dict whose \<open>meta\<close> and \<open>body\<close> (the empty string when the
  key is missing) are strings, \<open>decode\<close> raises an error, and so returns no payload,
  exactly when \<open>meta\<close> does not start with \<open>META&\<close>, or \<open>body\<close> does not start
  with \<open>BODY|\<close>, or the header, the part of the body between the marker and the
  first row separator, does not match the header pattern. A payload whose \<open>data\<close> is
  the dict of the single key \<open>sensordata\<close>, as \<open>decode\<close> returns it, is rejected.
\<close>

theorem decode_fails_iff:
  "(map_of obj ''data'' = Some (JDict d) \<and> dict_get d ''meta'' (JStr []) = JStr meta
      \<and> dict_get d ''body'' (JStr []) = JStr body
    \<longrightarrow> ((\<exists>e. decode obj = Inl e)
          \<longleftrightarrow> (\<not> startswith meta ''META&'' \<or> \<not> startswith body ''BODY|''
               \<or> match_header (hd (split_on RECORD_SEP (drop (length ''BODY|'') body))) = None)))
   \<and> (map_of obj ''data'' = Some (JDict [(''sensordata'', recs)])
    \<longrightarrow> decode obj = Inl NotCoilFormat)"
proof (intro conjI impI)
  assume a: "map_of obj ''data'' = Some (JDict d) \<and> dict_get d ''meta'' (JStr []) = JStr meta
      \<and> dict_get d ''body'' (JStr []) = JStr body"
  show "(\<exists>e. decode obj = Inl e)
          \<longleftrightarrow> (\<not> startswith meta ''META&'' \<or> \<not> startswith body ''BODY|''
               \<or> match_header (hd (split_on RECORD_SEP (drop (length ''BODY|'') body))) = None)"
  proof (cases "startswith meta ''META&'' \<and> startswith body ''BODY|''")
    case True
    with a have "decode obj = decode_body obj meta body"
      by (simp add: decode_def)
    with True show ?thesis
      using decode_body_fails_iff [of obj meta body] by simp
  next
    case False
    with a have "decode obj = Inl NotCoilFormat"
      by (auto simp: decode_def)
    with False show ?thesis by auto
  qed
next
  assume "map_of obj ''data'' = Some (JDict [(''sensordata'', recs)])"
  then show "decode obj = Inl NotCoilFormat"
    by (simp add: decode_def dict_get_def startswith_def)
qed

theorem decode_fails_iff_witness:
  "(\<exists>e. decode [(''data'', JDict [(''meta'', JStr ''META&ORDER=a''), (''body'', JStr ''BODY|sensor[1]{a}|x'')])] = Inl e)
   \<and> decode [(''data'', JDict [(''sensordata'', JList [JDict [(''a'', JStr ''x'')]])])] = Inl NotCoilFormat"
proof -
  let ?d = "[(''meta'', JStr ''META&ORDER=a''), (''body'', JStr ''BODY|sensor[1]{a}|x'')]"
  have h: "match_header (hd (split_on RECORD_SEP (drop (length ''BODY|'') ''BODY|sensor[1]{a}|x''))) = None"
    by code_simp
  have g: "map_of [(''data'', JDict ?d)] ''data'' = Some (JDict ?d)
      \<and> dict_get ?d ''meta'' (JStr []) = JStr ''META&ORDER=a''
      \<and> dict_get ?d ''body'' (JStr []) = JStr ''BODY|sensor[1]{a}|x''"
    by (simp add: dict_get_def)
  have s: "map_of [(''data'', JDict [(''sensordata'', JList [JDict [(''a'', JStr ''x'')]])])] ''data''
      = Some (JDict [(''sensordata'', JList [JDict [(''a'', JStr ''x'')]])])"
    by simp
  from decode_fails_iff [of "[(''data'', JDict ?d)]" ?d "''META&ORDER=a''" "''BODY|sensor[1]{a}|x''"]
    g h have 1: "\<exists>e. decode [(''data'', JDict ?d)] = Inl e"
    by blast
  from decode_fails_iff
    [of "[(''data'', JDict [(''sensordata'', JList [JDict [(''a'', JStr ''x'')]])])]" _ _ _
        "JList [JDict [(''a'', JStr ''x'')]]"] s
  have 2: "decode [(''data'', JDict [(''sensordata'', JList [JDict [(''a'', JStr ''x'')]])])] = Inl NotCoilFormat"
    by blast
  from 1 2 show ?thesis by blast
qed

subsection \<open>Round trip\<close>

text \<open>
  C1 at the dataset of one record whose field \<open>temp\<close> has the value \<open>21,5\<close>:
  the encoder writes the comma with the escape character before it, the decoder splits
  the row at that comma without looking at the escape character, and the record comes
  back with the value \<open>21\<close> followed by the escape character.
\<close>

theorem roundtrip_comma_value:
  "roundtrip [(''data'', JDict [(''sensordata'', JList [JDict [(''temp'', JStr ''21,5'')]])])]
     = Inr [(''data'', JDict [(''sensordata'',
              JList [JDict [(''temp'', JStr [CHR ''2'', CHR ''1'', CHR 0x5C])]])])]
   \<and> roundtrip [(''data'', JDict [(''sensordata'', JList [JDict [(''temp'', JStr ''21,5'')]])])]
     \<noteq> Inr [(''data'', JDict [(''sensordata'', JList [JDict [(''temp'', JStr ''21,5'')]])])]"
proof -
  have e: "encode None [(''data'', JDict [(''sensordata'', JList [JDict [(''temp'', JStr ''21,5'')]])])] 2 True
      = Inr [(''data'', JDict [(''meta'', JStr ''META&ORDER=temp''),
               (''body'', JStr (''BODY|sensordata[1]{temp}|21'' @ [CHR 0x5C] @ '',5''))])]"
    by code_simp
  have d: "decode [(''data'', JDict [(''meta'', JStr ''META&ORDER=temp''),
               (''body'', JStr (''BODY|sensordata[1]{temp}|21'' @ [CHR 0x5C] @ '',5''))])]
      = Inr [(''data'', JDict [(''sensordata'',
               JList [JDict [(''temp'', JStr [CHR ''2'', CHR ''1'', CHR 0x5C])]])])]"
    by code_simp
  show ?thesis
    unfolding roundtrip_def e using d by simp
qed

subsection \<open>Tokens of the optimizer\<close>






















lemma encode_records_form:
  assumes "optimize enc compact_mode records (key_order_of records)
             (lower (json_dumps (JDict payload))) value_min_freq = (a, av, cur)"
  shows "encode_records enc payload records value_min_freq compact_mode
     = dict_set payload ''data''
         (JDict [(''meta'', JStr (''META&'' @ join_str ''&''
                   ((order_decl compact_mode (key_order_of records)
                     # (if av \<noteq> [] then [''vmap='' @ join_str '';'' (map (\<lambda>kv. fst kv @ '':'' @ snd kv) av)]
                        else []))
                    @ extras_of payload))),
                 (''body'', JStr (''BODY|'' @ build_body compact_mode records (key_order_of records) a))])"
proof (cases "fst (propose_value_tokens records (lower (json_dumps (JDict payload))) value_min_freq) = []")
  case True
  with assms have "a = []" "av = []"
    by (simp_all add: optimize_def optimize_from_def)
  with True assms show ?thesis
    by (simp add: encode_records_def encode_with_def Let_def)
next
  case False
  with assms show ?thesis
    by (simp add: encode_records_def encode_with_def Let_def)
qed





subsection \<open>Greedy monotonicity\<close>







subsection \<open>The scenario of three readings\<close>

lemma scenario_candidates:
  "candidates_of (counter (all_values_of scenario_records)) 2 = [''21.5'', ''C'']"
  by code_simp

lemma scenario_proposals:
  "fst (propose_value_tokens scenario_records scenario_text 2)
     = [(''21.5'', ''V1''), (''C'', ''V2'')]"
  by code_simp

lemma scenario_key_order: "key_order_of scenario_records = [''temp'', ''unit'']"
  by code_simp

lemma scenario_tokens:
  "accept_token ''V1'' [] scenario_text = ''V1''"
  "accept_token ''V2'' [] scenario_text = ''V2''"
  "accept_token ''V2'' [(''V1'', ''21.5'')] scenario_text = ''V2''"
  by code_simp+

lemma scenario_bodies:
  "build_body True scenario_records [''temp'', ''unit''] []
     = ''sensordata[3]{temp,unit}|21.5,C|21.5,C|19.0,C''"
  "build_body True scenario_records [''temp'', ''unit''] [(''21.5'', ''V1'')]
     = ''sensordata[3]{temp,unit}|V1,C|V1,C|19.0,C''"
  "build_body True scenario_records [''temp'', ''unit''] [(''C'', ''V2'')]
     = ''sensordata[3]{temp,unit}|21.5,V2|21.5,V2|19.0,V2''"
  "build_body True scenario_records [''temp'', ''unit''] [(''21.5'', ''V1''), (''C'', ''V2'')]
     = ''sensordata[3]{temp,unit}|V1,V2|V1,V2|19.0,V2''"
  by code_simp+

lemma opt_step_alt:
  "opt_step enc compact_mode records key_order payload_text (a, av, cur) (val, tok0) = (a, av, cur)
   \<or> (fst (opt_step enc compact_mode records key_order payload_text (a, av, cur) (val, tok0))
         = dict_set a val (accept_token tok0 av payload_text)
      \<and> fst (snd (opt_step enc compact_mode records key_order payload_text (a, av, cur) (val, tok0)))
         = dict_set av (accept_token tok0 av payload_text) val)"
  by (simp add: Let_def)

lemma scenario_tables:
  "fst (optimize enc True scenario_records [''temp'', ''unit'']
          scenario_text 2)
     \<in> {[], [(''21.5'', ''V1'')], [(''C'', ''V2'')], [(''21.5'', ''V1''), (''C'', ''V2'')]}"
proof -
  let ?T = "scenario_text"
  let ?step = "opt_step enc True scenario_records [''temp'', ''unit''] ?T"
  let ?base = "token_count enc (base_text True scenario_records [''temp'', ''unit''])"
  obtain a1 av1 c1 where s1: "?step ([], [], ?base) (''21.5'', ''V1'') = (a1, av1, c1)"
    by (cases "?step ([], [], ?base) (''21.5'', ''V1'')") auto
  have o: "optimize enc True scenario_records [''temp'', ''unit''] ?T 2
      = ?step (a1, av1, c1) (''C'', ''V2'')"
    by (simp add: optimize_def optimize_from_def scenario_proposals s1 del: opt_step.simps)
  have first: "(a1 = [] \<and> av1 = []) \<or> (a1 = [(''21.5'', ''V1'')] \<and> av1 = [(''V1'', ''21.5'')])"
    using opt_step_alt [of enc True scenario_records "[''temp'', ''unit'']" ?T "[]" "[]" ?base
        "''21.5''" "''V1''"]
    unfolding s1 scenario_tokens by (auto simp: dict_set_def)
  then show ?thesis
  proof
    assume e: "a1 = [] \<and> av1 = []"
    have "?step ([], [], c1) (''C'', ''V2'') = ([], [], c1)
        \<or> fst (?step ([], [], c1) (''C'', ''V2'')) = [(''C'', ''V2'')]"
      using opt_step_alt [of enc True scenario_records "[''temp'', ''unit'']" ?T "[]" "[]" c1
          "''C''" "''V2''"]
      unfolding scenario_tokens by (auto simp: dict_set_def simp del: opt_step.simps)
    then show ?thesis
      unfolding o using e by (auto simp del: opt_step.simps)
  next
    assume e: "a1 = [(''21.5'', ''V1'')] \<and> av1 = [(''V1'', ''21.5'')]"
    have "?step ([(''21.5'', ''V1'')], [(''V1'', ''21.5'')], c1) (''C'', ''V2'')
          = ([(''21.5'', ''V1'')], [(''V1'', ''21.5'')], c1)
        \<or> fst (?step ([(''21.5'', ''V1'')], [(''V1'', ''21.5'')], c1) (''C'', ''V2''))
          = [(''21.5'', ''V1''), (''C'', ''V2'')]"
      using opt_step_alt [of enc True scenario_records "[''temp'', ''unit'']" ?T
          "[(''21.5'', ''V1'')]" "[(''V1'', ''21.5'')]" c1 "''C''" "''V2''"]
      unfolding scenario_tokens by (auto simp: dict_set_def simp del: opt_step.simps)
    then show ?thesis
      unfolding o using e by (auto simp del: opt_step.simps)
  qed
qed

lemma scenario_encode:
  "\<exists>meta. encode enc scenario_payload 2 True
     = Inr [(''data'', JDict [(''meta'', JStr meta),
              (''body'', JStr (''BODY|'' @ build_body True scenario_records [''temp'', ''unit'']
                 (fst (optimize enc True scenario_records [''temp'', ''unit''] scenario_text 2))))])]"
proof -
  obtain a av cur
    where o: "optimize enc True scenario_records (key_order_of scenario_records) scenario_text 2
                = (a, av, cur)"
    by (cases "optimize enc True scenario_records (key_order_of scenario_records) scenario_text 2")
      auto
  have c: "check_records (map JDict scenario_records) = Inr scenario_records"
    by (simp add: scenario_records_def)
  have e: "encode enc scenario_payload 2 True
      = Inr (encode_records enc scenario_payload scenario_records 2 True)"
    by (simp add: encode_def scenario_payload_def extract_records_def c)
  have d: "dict_set scenario_payload ''data'' v = [(''data'', v)]" for v
    by (simp add: dict_set_def scenario_payload_def)
  have a: "fst (optimize enc True scenario_records [''temp'', ''unit''] scenario_text 2) = a"
    using o unfolding scenario_key_order by simp
  show ?thesis
    unfolding e encode_records_form [OF o [unfolded scenario_text_def]] d a scenario_key_order
    by blast
qed

text \<open>
  The order in which the optimizer tries the two candidates: \<open>21.5\<close> occurs twice and
  has four characters, a benefit of 8; \<open>C\<close> occurs three times and has one, a
  benefit of 3; so \<open>21.5\<close> is first.
\<close>

theorem scenario_order_counterexample:
  "candidates_of (counter (all_values_of scenario_records)) 2 = [''21.5'', ''C'']
   \<and> int (count_of (counter (all_values_of scenario_records)) ''21.5'') * int (length ''21.5'') = 8
   \<and> int (count_of (counter (all_values_of scenario_records)) ''C'') * int (length ''C'') = 3"
  by code_simp

text \<open>
  C5, as the code has it. In the scenario, with minimum frequency 2, the values
  \<open>21.5\<close> (twice) and \<open>C\<close> (three times) are the candidates; the optimizer tries
  \<open>21.5\<close> before \<open>C\<close>, as the ranking by frequency times length says, and proposes
  \<open>V1\<close> for \<open>21.5\<close> and \<open>V2\<close> for \<open>C\<close>; and with any cost oracle the body
  that \<open>encode\<close> returns is one of four, for the four sets of accepted tokens, in each
  of which an accepted token stands in every row where its value occurred.
\<close>

theorem scenario_ranking:
  "counter (all_values_of scenario_records) = [(''21.5'', 2), (''C'', 3), (''19.0'', 1)]
   \<and> candidates_of (counter (all_values_of scenario_records)) 2 = [''21.5'', ''C'']
   \<and> fst (propose_value_tokens scenario_records scenario_text 2)
       = [(''21.5'', ''V1''), (''C'', ''V2'')]
   \<and> (\<exists>meta body.
         encode enc scenario_payload 2 True
           = Inr [(''data'', JDict [(''meta'', JStr meta), (''body'', JStr body)])]
         \<and> body \<in> {''BODY|sensordata[3]{temp,unit}|21.5,C|21.5,C|19.0,C'',
                    ''BODY|sensordata[3]{temp,unit}|V1,C|V1,C|19.0,C'',
                    ''BODY|sensordata[3]{temp,unit}|21.5,V2|21.5,V2|19.0,V2'',
                    ''BODY|sensordata[3]{temp,unit}|V1,V2|V1,V2|19.0,V2''})"
proof -
  have cnt: "counter (all_values_of scenario_records) = [(''21.5'', 2), (''C'', 3), (''19.0'', 1)]"
    by code_simp
  let ?table = "fst (optimize enc True scenario_records [''temp'', ''unit''] scenario_text 2)"
  obtain meta where e: "encode enc scenario_payload 2 True
     = Inr [(''data'', JDict [(''meta'', JStr meta),
              (''body'', JStr (''BODY|'' @ build_body True scenario_records [''temp'', ''unit'']
                 ?table))])]"
    using scenario_encode [of enc] by blast
  have "''BODY|'' @ build_body True scenario_records [''temp'', ''unit''] ?table
      \<in> {''BODY|sensordata[3]{temp,unit}|21.5,C|21.5,C|19.0,C'',
          ''BODY|sensordata[3]{temp,unit}|V1,C|V1,C|19.0,C'',
          ''BODY|sensordata[3]{temp,unit}|21.5,V2|21.5,V2|19.0,V2'',
          ''BODY|sensordata[3]{temp,unit}|V1,V2|V1,V2|19.0,V2''}"
    using scenario_tables [of enc] by (auto simp: scenario_bodies)
  with e have "\<exists>meta body.
         encode enc scenario_payload 2 True
           = Inr [(''data'', JDict [(''meta'', JStr meta), (''body'', JStr body)])]
         \<and> body \<in> {''BODY|sensordata[3]{temp,unit}|21.5,C|21.5,C|19.0,C'',
                    ''BODY|sensordata[3]{temp,unit}|V1,C|V1,C|19.0,C'',
                    ''BODY|sensordata[3]{temp,unit}|21.5,V2|21.5,V2|19.0,V2'',
                    ''BODY|sensordata[3]{temp,unit}|V1,V2|V1,V2|19.0,V2''}"
    by blast
  with cnt scenario_candidates scenario_proposals show ?thesis
    by (intro conjI)
qed

theorem scenario_ranking_witness:
  "encode None scenario_payload 2 True
     = Inr [(''data'', JDict [(''meta'', JStr ''META&ORDER=temp,unit''),
              (''body'', JStr ''BODY|sensordata[3]{temp,unit}|21.5,C|21.5,C|19.0,C'')])]
   \<and> candidates_of (counter (all_values_of scenario_records)) 2 = [''21.5'', ''C'']"
proof -
  have "encode None scenario_payload 2 True
     = Inr [(''data'', JDict [(''meta'', JStr ''META&ORDER=temp,unit''),
              (''body'', JStr ''BODY|sensordata[3]{temp,unit}|21.5,C|21.5,C|19.0,C'')])]"
    by code_simp
  moreover have "candidates_of (counter (all_values_of scenario_records)) 2 = [''21.5'', ''C'']"
    by (rule conjunct1 [OF conjunct2 [OF scenario_ranking [of None]]])
  ultimately show ?thesis by (rule conjI)
qed

end
